theory Spec2Isabelle
  imports Complex_Main "HOL-Library.List_Lexorder" "HOL-Library.Char_ord" "HOL-Library.FSet"
begin

section \<open>The pip package manager of ramble: runner and provisioning phases\<close>

text \<open>
  A shallow embedding of \<^verbatim>\<open>var/ramble/repos/builtin/package_managers/pip/package_manager.py\<close>:
  the class \<^verbatim>\<open>PipRunner\<close> (one virtual environment: creation, requirement file, install,
  version and inventory hash) and the two phases of the class \<^verbatim>\<open>Pip\<close> that drive it behind
  the workspace cache.

  Python strings are byte strings here (\<open>string\<close>, UTF-8): the order of \<^verbatim>\<open>sorted\<close> on
  \<^verbatim>\<open>str\<close> (by code point) is the lexicographic order of the bytes. Exceptions are values
  of the type \<open>error\<close>; an operation returns its result next to the state it leaves behind,
  since a Python exception keeps every mutation made before it was raised.
\<close>

subsection \<open>Errors\<close>

datatype error =
    RunnerError string
  | ApplicationError string
  | OSError string
  | ProcessError
  | AttributeError
  | TypeError

subsection \<open>Paths\<close>

type_synonym path = string

definition sep :: char where
  "sep = CHR ''/''"

text \<open>\<^verbatim>\<open>os.path.join\<close> of \<^verbatim>\<open>posixpath\<close>: an absolute component replaces what came before;
  a separator is inserted unless the path so far is empty or ends with one.\<close>

definition join2 :: "path \<Rightarrow> path \<Rightarrow> path" where
  "join2 a b =
     (if b \<noteq> [] \<and> hd b = sep then b
      else if a = [] \<or> last a = sep then a @ b
      else a @ [sep] @ b)"

definition path_join :: "path \<Rightarrow> path list \<Rightarrow> path" where
  "path_join a bs = foldl join2 a bs"

text \<open>\<^verbatim>\<open>os.path.dirname\<close> of \<^verbatim>\<open>posixpath\<close>: everything up to the last separator, with
  trailing separators stripped unless the head consists of separators only.\<close>

definition dirname :: "path \<Rightarrow> path" where
  "dirname p =
     (let head = rev (dropWhile (\<lambda>c. c \<noteq> sep) (rev p))
      in if head \<noteq> [] \<and> filter (\<lambda>c. c \<noteq> sep) head \<noteq> []
         then rev (dropWhile (\<lambda>c. c = sep) (rev head))
         else head)"

text \<open>The proper ancestors of a path: its prefixes that end just before a separator
  (the root and doubled separators give none).\<close>

fun prefixes_at_sep :: "path \<Rightarrow> path \<Rightarrow> path list" where
  "prefixes_at_sep pre [] = []"
| "prefixes_at_sep pre (c # cs) =
     (if c = sep \<and> pre \<noteq> [] \<and> last pre \<noteq> sep then [pre] else [])
       @ prefixes_at_sep (pre @ [c]) cs"

definition ancestors :: "path \<Rightarrow> path list" where
  "ancestors p = prefixes_at_sep [] p"

subsection \<open>The world: a file system and a trace of effects\<close>

text \<open>
  The file system maps a path (as the program writes it) to a directory or a regular file;
  both carry the modification time that \<^verbatim>\<open>os.path.getmtime\<close> returns, a float of which
  the program only uses the order. A write stamps the file with the clock of the file
  system. The trace records, oldest first, every effect of the program: a directory
  creation, a file opened for writing, an external process, a dry-run message.
\<close>

datatype node = Dir real | File string real

record filesystem =
  nodes :: "path \<Rightarrow> node option"
  clock :: real

datatype event =
    FsMkdir path
  | FsWrite path
  | Exec path "string list"
  | DryRunPrint path "string list"

record world =
  fs :: filesystem
  trace :: "event list"

definition path_exists :: "filesystem \<Rightarrow> path \<Rightarrow> bool" where
  "path_exists f p = (nodes f p \<noteq> None)"

definition path_isdir :: "filesystem \<Rightarrow> path \<Rightarrow> bool" where
  "path_isdir f p = (case nodes f p of Some (Dir t) \<Rightarrow> True | _ \<Rightarrow> False)"

definition path_isfile :: "filesystem \<Rightarrow> path \<Rightarrow> bool" where
  "path_isfile f p = (case nodes f p of Some (File c t) \<Rightarrow> True | _ \<Rightarrow> False)"

fun mtime_of :: "node \<Rightarrow> real" where
  "mtime_of (Dir t) = t"
| "mtime_of (File c t) = t"

text \<open>\<^verbatim>\<open>os.path.getmtime\<close>: raises \<^verbatim>\<open>OSError\<close> on a missing path.\<close>

definition getmtime :: "filesystem \<Rightarrow> path \<Rightarrow> error + real" where
  "getmtime f p =
     (case nodes f p of None \<Rightarrow> Inl (OSError ''FileNotFoundError'') | Some n \<Rightarrow> Inr (mtime_of n))"

text \<open>\<^verbatim>\<open>llnl.util.filesystem.mkdirp\<close> (\<^verbatim>\<open>os.makedirs\<close>): creates the path and its missing
  ancestors as directories; fails, creating nothing, on the empty path and when the path
  or one of its ancestors is a regular file.\<close>

definition mk_dirs :: "real \<Rightarrow> path list \<Rightarrow> (path \<Rightarrow> node option) \<Rightarrow> (path \<Rightarrow> node option)" where
  "mk_dirs t qs m = fold (\<lambda>q m. case m q of None \<Rightarrow> m(q \<mapsto> Dir t) | Some n \<Rightarrow> m) qs m"

definition mkdirp :: "path \<Rightarrow> world \<Rightarrow> error + world" where
  "mkdirp p w =
     (if p = [] then Inl (OSError ''FileNotFoundError'')
      else if list_ex (path_isfile (fs w)) (ancestors p @ [p]) then Inl (OSError ''NotADirectoryError'')
      else Inr (w\<lparr>fs := (fs w)\<lparr>nodes := mk_dirs (clock (fs w)) (ancestors p @ [p]) (nodes (fs w))\<rparr>,
                  trace := trace w @ [FsMkdir p]\<rparr>))"

text \<open>\<^verbatim>\<open>open(p, "w")\<close>: fails on a directory and when the parent directory is missing (an
  empty \<open>dirname\<close> is the current directory); otherwise the file is created or truncated
  and stamped with the clock. \<open>write_file\<close> is \<^verbatim>\<open>with open(p, "w") as f: f.write(c)\<close>.\<close>

definition open_write :: "path \<Rightarrow> world \<Rightarrow> error + world" where
  "open_write p w =
     (if path_isdir (fs w) p then Inl (OSError ''IsADirectoryError'')
      else if dirname p \<noteq> [] \<and> \<not> path_isdir (fs w) (dirname p) then Inl (OSError ''FileNotFoundError'')
      else Inr (w\<lparr>fs := (fs w)\<lparr>nodes := (nodes (fs w))(p \<mapsto> File [] (clock (fs w)))\<rparr>,
                  trace := trace w @ [FsWrite p]\<rparr>))"

definition put_contents :: "path \<Rightarrow> string \<Rightarrow> world \<Rightarrow> world" where
  "put_contents p c w = w\<lparr>fs := (fs w)\<lparr>nodes := (nodes (fs w))(p \<mapsto> File c (clock (fs w)))\<rparr>\<rparr>"

definition write_file :: "path \<Rightarrow> string \<Rightarrow> world \<Rightarrow> error + world" where
  "write_file p c w = (case open_write p w of Inl e \<Rightarrow> Inl e | Inr w1 \<Rightarrow> Inr (put_contents p c w1))"

text \<open>\<^verbatim>\<open>open(p, "r")\<close> and \<^verbatim>\<open>f.read()\<close>: text mode with universal newlines, so a carriage
  return, alone or before a line feed, is read as one line feed.\<close>

definition CR :: char where
  "CR = CHR 0x0D"

definition LF :: char where
  "LF = CHR 0x0A"

fun universal_newlines :: "string \<Rightarrow> string" where
  "universal_newlines [] = []"
| "universal_newlines [c] = [if c = CR then LF else c]"
| "universal_newlines (c # d # cs) =
     (if c = CR then (if d = LF then LF # universal_newlines cs else LF # universal_newlines (d # cs))
      else c # universal_newlines (d # cs))"

definition read_text :: "path \<Rightarrow> filesystem \<Rightarrow> error + string" where
  "read_text p f =
     (case nodes f p of
        None \<Rightarrow> Inl (OSError ''FileNotFoundError'')
      | Some (Dir t) \<Rightarrow> Inl (OSError ''IsADirectoryError'')
      | Some (File c t) \<Rightarrow> Inr (universal_newlines c))"

subsection \<open>External collaborators\<close>

text \<open>
  What the program calls and does not define is a parameter: \<open>run_process\<close> is the call of
  an \<^verbatim>\<open>Executable\<close> (program, arguments, file system before; success, captured standard
  output, file system after), \<open>hash_string\<close> and \<open>hash_bytes\<close> are the digests of
  \<^verbatim>\<open>ramble.util.hashing\<close>.
\<close>

record ext =
  run_process :: "path \<Rightarrow> string list \<Rightarrow> filesystem \<Rightarrow> bool \<times> string \<times> filesystem"
  hash_string :: "string \<Rightarrow> string"
  hash_bytes :: "string \<Rightarrow> string"

text \<open>An \<^verbatim>\<open>Executable\<close>: the program and its default arguments.\<close>

type_synonym executable = "path \<times> string list"

definition add_default_arg :: "string \<Rightarrow> executable \<Rightarrow> executable" where
  "add_default_arg a x = (fst x, snd x @ [a])"

text \<open>Calling an executable: the process runs on the file system and is recorded in the trace;
  a failed process raises \<^verbatim>\<open>ProcessError\<close> at the call site.\<close>

definition call_exe :: "ext \<Rightarrow> executable \<Rightarrow> string list \<Rightarrow> world \<Rightarrow> bool \<times> string \<times> world" where
  "call_exe X x args w =
     (case run_process X (fst x) (snd x @ args) (fs w) of
        (ok, out, f') \<Rightarrow> (ok, out, w\<lparr>fs := f', trace := trace w @ [Exec (fst x) (snd x @ args)]\<rparr>))"

text \<open>Modelled from the spec: \<^verbatim>\<open>hash_file\<close> of \<^verbatim>\<open>ramble.util.hashing\<close> is not among the
  sources; the spec has it return "a digest of the lock file's bytes". Opening a missing
  file or a directory raises.\<close>

definition hash_file :: "ext \<Rightarrow> path \<Rightarrow> filesystem \<Rightarrow> error + string" where
  "hash_file X p f =
     (case nodes f p of
        None \<Rightarrow> Inl (OSError ''FileNotFoundError'')
      | Some (Dir t) \<Rightarrow> Inl (OSError ''IsADirectoryError'')
      | Some (File c t) \<Rightarrow> Inr (hash_bytes X c))"

subsection \<open>The runner\<close>

record runner =
  bs_python :: path
  env_path :: "path option"
  configs :: "string list"
  dry_run :: bool
  specs :: "string fset"
  installed :: bool

definition venv_name :: string where
  "venv_name = ''.venv''"

definition requirement_file_name :: string where
  "requirement_file_name = ''requirements.txt''"

definition lock_file_name :: string where
  "lock_file_name = ''requirements.lock''"

definition linesep :: string where
  "linesep = [LF]"

definition configure_env :: "path option \<Rightarrow> runner \<Rightarrow> runner" where
  "configure_env p r = r\<lparr>env_path := p\<rparr>"

definition set_dry_run :: "bool \<Rightarrow> runner \<Rightarrow> runner" where
  "set_dry_run b r = r\<lparr>dry_run := b\<rparr>"

text \<open>\<^verbatim>\<open>create_env\<close>: the conflict check, the directory tree, the bootstrap of the virtual
  environment (real mode only, when its directory is missing), then the binding of the
  path. An exception leaves \<^verbatim>\<open>self.env_path\<close> as it was.\<close>

definition create_env :: "ext \<Rightarrow> path \<Rightarrow> runner \<Rightarrow> world \<Rightarrow> (error + unit) \<times> runner \<times> world" where
  "create_env X p r w =
     (if path_exists (fs w) p \<and> \<not> path_isdir (fs w) p
      then (Inl (RunnerError (''Unable to create environment '' @ p)), r, w)
      else
        (case (if \<not> path_exists (fs w) p then mkdirp p w else Inr w) of
           Inl e \<Rightarrow> (Inl e, r, w)
         | Inr w1 \<Rightarrow>
             if \<not> dry_run r \<and> \<not> path_exists (fs w1) (path_join p [venv_name])
             then (case call_exe X (bs_python r, []) [''-m'', ''venv'', path_join p [venv_name]] w1 of
                     (ok, out, w2) \<Rightarrow>
                       if ok then (Inr (), r\<lparr>env_path := Some p\<rparr>, w2)
                       else (Inl ProcessError, r, w2))
             else (Inr (), r\<lparr>env_path := Some p\<rparr>, w1)))"

text \<open>\<^verbatim>\<open>_get_venv_python\<close>: the bootstrap interpreter in dry-run mode, the interpreter of the
  virtual environment otherwise (\<^verbatim>\<open>os.path.join\<close> on \<^verbatim>\<open>None\<close> raises \<^verbatim>\<open>TypeError\<close>).\<close>

definition get_venv_python :: "runner \<Rightarrow> error + executable" where
  "get_venv_python r =
     (if dry_run r then Inr (bs_python r, [])
      else (case env_path r of
              None \<Rightarrow> Inl TypeError
            | Some p \<Rightarrow> Inr (path_join p [venv_name, ''bin'', ''python''], [])))"

definition get_activate_script_path :: "runner \<Rightarrow> error + path" where
  "get_activate_script_path r =
     (case env_path r of
        None \<Rightarrow> Inl TypeError
      | Some p \<Rightarrow> Inr (path_join p [venv_name, ''bin'', ''activate'']))"

text \<open>\<^verbatim>\<open>_check_env_configured\<close>: \<^verbatim>\<open>not self.env_path\<close> holds for \<^verbatim>\<open>None\<close> and for the empty
  string.\<close>

definition check_env_configured :: "runner \<Rightarrow> world \<Rightarrow> error + unit" where
  "check_env_configured r w =
     (if env_path r = None \<or> env_path r = Some [] then Inl (RunnerError ''env_path is not configured'')
      else if dry_run r then Inr ()
      else (case get_activate_script_path r of
              Inl e \<Rightarrow> Inl e
            | Inr script_path \<Rightarrow>
                if \<not> path_exists (fs w) script_path
                then Inl (RunnerError ''virtual env is not configured'')
                else Inr ()))"

text \<open>\<^verbatim>\<open>_generate_requirement_content\<close>: \<^verbatim>\<open>os.linesep.join(sorted(self.specs)) + os.linesep\<close>.\<close>

fun str_join :: "string \<Rightarrow> string list \<Rightarrow> string" where
  "str_join s [] = []"
| "str_join s [x] = x"
| "str_join s (x # y # ys) = x @ s @ str_join s (y # ys)"

definition generate_requirement_content :: "runner \<Rightarrow> string" where
  "generate_requirement_content r = str_join linesep (sorted_list_of_fset (specs r)) @ linesep"

text \<open>\<^verbatim>\<open>add_spec\<close>: the check, then \<^verbatim>\<open>self.specs.add(spec)\<close>. It touches no file.\<close>

definition add_spec :: "string \<Rightarrow> runner \<Rightarrow> world \<Rightarrow> (error + unit) \<times> runner" where
  "add_spec spec r w =
     (case check_env_configured r w of
        Inl e \<Rightarrow> (Inl e, r)
      | Inr u \<Rightarrow> (Inr (), r\<lparr>specs := finsert spec (specs r)\<rparr>))"

text \<open>\<^verbatim>\<open>generate_requirement_file\<close>: the up-to-date test reads both modification times and the
  requirement file; when it passes, nothing is written and the runner is marked installed.
  Every other path ends in \<^verbatim>\<open>with open(req_file, "w") as f: f.write(contents)\<close>.\<close>

definition write_requirement :: "path \<Rightarrow> string \<Rightarrow> runner \<Rightarrow> world \<Rightarrow> (error + unit) \<times> runner \<times> world" where
  "write_requirement req_file contents r w =
     (case write_file req_file contents w of
        Inl e \<Rightarrow> (Inl e, r, w)
      | Inr w1 \<Rightarrow> (Inr (), r, w1))"

definition generate_requirement_file :: "runner \<Rightarrow> world \<Rightarrow> (error + unit) \<times> runner \<times> world" where
  "generate_requirement_file r w =
     (case check_env_configured r w of
        Inl e \<Rightarrow> (Inl e, r, w)
      | Inr u \<Rightarrow>
          (case env_path r of
             None \<Rightarrow> (Inl TypeError, r, w)
           | Some p \<Rightarrow>
               let contents = generate_requirement_content r;
                   req_file = path_join p [requirement_file_name];
                   lock_file = path_join p [lock_file_name]
               in if path_exists (fs w) req_file \<and> path_exists (fs w) lock_file
                  then (case getmtime (fs w) req_file of
                          Inl e \<Rightarrow> (Inl e, r, w)
                        | Inr existing_req_mtime \<Rightarrow>
                            (case getmtime (fs w) lock_file of
                               Inl e \<Rightarrow> (Inl e, r, w)
                             | Inr existing_lock_mtime \<Rightarrow>
                                 if existing_lock_mtime \<ge> existing_req_mtime
                                 then (case read_text req_file (fs w) of
                                         Inl e \<Rightarrow> (Inl e, r, w)
                                       | Inr txt \<Rightarrow>
                                           if txt = contents then (Inr (), r\<lparr>installed := True\<rparr>, w)
                                           else write_requirement req_file contents r w)
                                 else write_requirement req_file contents r w))
                  else write_requirement req_file contents r w))"

text \<open>\<^verbatim>\<open>_dry_run_print\<close>: two log messages naming the executable (with its default arguments)
  and the arguments; one trace event here.\<close>

definition dry_run_print :: "executable \<Rightarrow> string list \<Rightarrow> world \<Rightarrow> world" where
  "dry_run_print x args w = w\<lparr>trace := trace w @ [DryRunPrint (fst x) (snd x @ args)]\<rparr>"

text \<open>\<^verbatim>\<open>install\<close>: in real mode the installer runs, then the lock file is opened for writing
  and the freeze runs with its output sent to that file; \<^verbatim>\<open>self.installed\<close> is set last.\<close>

definition install :: "ext \<Rightarrow> runner \<Rightarrow> world \<Rightarrow> (error + unit) \<times> runner \<times> world" where
  "install X r w =
     (case check_env_configured r w of
        Inl e \<Rightarrow> (Inl e, r, w)
      | Inr u \<Rightarrow>
          if installed r then (Inr (), r, w)
          else
            (case env_path r of
               None \<Rightarrow> (Inl TypeError, r, w)
             | Some p \<Rightarrow>
                 let req_file = path_join p [requirement_file_name]
                 in if \<not> path_exists (fs w) req_file
                    then (Inl (RunnerError (req_file @ '' does not exist'')), r, w)
                    else
                      (case get_venv_python r of
                         Inl e \<Rightarrow> (Inl e, r, w)
                       | Inr py \<Rightarrow>
                           let installer = add_default_arg ''pip'' (add_default_arg ''-m'' py);
                               install_args = [''install'', ''-r'', req_file];
                               freeze_args = [''freeze'', ''-r'', req_file]
                           in if dry_run r
                              then (Inr (), r\<lparr>installed := True\<rparr>,
                                    dry_run_print installer freeze_args
                                      (dry_run_print installer install_args w))
                              else
                                (case call_exe X installer install_args w of
                                   (ok, out, w1) \<Rightarrow>
                                     if \<not> ok then (Inl ProcessError, r, w1)
                                     else
                                       let lock_file = path_join p [lock_file_name]
                                       in (case open_write lock_file w1 of
                                             Inl e \<Rightarrow> (Inl e, r, w1)
                                           | Inr w2 \<Rightarrow>
                                               (case call_exe X installer freeze_args w2 of
                                                  (ok2, out2, w3) \<Rightarrow>
                                                    if ok2
                                                    then (Inr (), r\<lparr>installed := True\<rparr>,
                                                          put_contents lock_file out2 w3)
                                                    else (Inl ProcessError, r,
                                                          put_contents lock_file out2 w3)))))))"

text \<open>\<^verbatim>\<open>get_version\<close>: \<^verbatim>\<open>re.search(r"pip (?P<version>[\d.]+) from", out).group("version")\<close>.
  The search returns the leftmost match: \<^verbatim>\<open>"pip "\<close>, the longest run of digits and dots
  (not empty), \<^verbatim>\<open>" from"\<close>; no shorter run can match, since the run is followed by a
  character of the class. The output is ASCII here, so the digits are \<^verbatim>\<open>0\<close> to \<^verbatim>\<open>9\<close>.
  Without a match the search returns \<^verbatim>\<open>None\<close>, and \<^verbatim>\<open>None.group\<close> raises
  \<^verbatim>\<open>AttributeError\<close>.\<close>

definition is_version_char :: "char \<Rightarrow> bool" where
  "is_version_char c = (c \<in> set ''0123456789.'')"

definition match_here :: "string \<Rightarrow> string option" where
  "match_here s =
     (if take 4 s = ''pip ''
      then let v = takeWhile is_version_char (drop 4 s);
               rest = dropWhile is_version_char (drop 4 s)
           in if v \<noteq> [] \<and> take 5 rest = '' from'' then Some v else None
      else None)"

fun re_search_version :: "string \<Rightarrow> string option" where
  "re_search_version [] = None"
| "re_search_version (c # cs) =
     (case match_here (c # cs) of Some v \<Rightarrow> Some v | None \<Rightarrow> re_search_version cs)"

definition get_version :: "ext \<Rightarrow> runner \<Rightarrow> world \<Rightarrow> (error + string) \<times> world" where
  "get_version X r w =
     (case get_venv_python r of
        Inl e \<Rightarrow> (Inl e, w)
      | Inr exe \<Rightarrow>
          (case call_exe X exe [''-m'', ''pip'', ''--version''] w of
             (ok, out, w1) \<Rightarrow>
               if \<not> ok then (Inl ProcessError, w1)
               else (case re_search_version out of
                       None \<Rightarrow> (Inl AttributeError, w1)
                     | Some v \<Rightarrow> (Inr v, w1))))"

text \<open>\<^verbatim>\<open>inventory_hash\<close>.\<close>

definition inventory_hash :: "ext \<Rightarrow> runner \<Rightarrow> world \<Rightarrow> error + string" where
  "inventory_hash X r w =
     (case check_env_configured r w of
        Inl e \<Rightarrow> Inl e
      | Inr u \<Rightarrow>
          if dry_run r then Inr (hash_string X (generate_requirement_content r))
          else (case env_path r of
                  None \<Rightarrow> Inl TypeError
                | Some p \<Rightarrow> hash_file X (path_join p [lock_file_name]) (fs w)))"

subsection \<open>The phases of the package manager\<close>

text \<open>Modelled from the spec: the workspace and its cache are not among the sources; the
  spec has the cache as \<^verbatim>\<open>check(key) -> bool\<close> and \<^verbatim>\<open>register(key) -> void\<close>, keyed by
  the pair of a phase label and an environment path, with the scope of one run.\<close>

type_synonym cache_key = "string \<times> path"

record workspace =
  cache :: "cache_key set"
  ws_dry_run :: bool

definition check_cache :: "workspace \<Rightarrow> cache_key \<Rightarrow> bool" where
  "check_cache ws k = (k \<in> cache ws)"

definition add_to_cache :: "cache_key \<Rightarrow> workspace \<Rightarrow> workspace" where
  "add_to_cache k ws = ws\<lparr>cache := insert k (cache ws)\<rparr>"

text \<open>One \<^verbatim>\<open>Pip\<close> instance: its runner, and what it reads from its collaborators, which
  are parameters: \<^verbatim>\<open>self.app_inst.expander.env_path\<close>, \<^verbatim>\<open>self.environment_required()\<close>,
  and the outcome of \<^verbatim>\<open>render_environment\<close>: an exception, \<open>None\<close> when the result is
  false in Python, otherwise the specs that \<^verbatim>\<open>package_specs_for_environment\<close> yields.\<close>

record pip =
  runner :: runner
  expander_env_path :: "path option"
  environment_required :: bool
  software_env :: "error + string list option"

text \<open>The loop \<^verbatim>\<open>for pkg_spec in ...: self.runner.add_spec(pkg_spec)\<close>.\<close>

fun add_specs :: "string list \<Rightarrow> runner \<Rightarrow> world \<Rightarrow> (error + unit) \<times> runner" where
  "add_specs [] r w = (Inr (), r)"
| "add_specs (s # ss) r w =
     (case add_spec s r w of
        (Inl e, r1) \<Rightarrow> (Inl e, r1)
      | (Inr u, r1) \<Rightarrow> add_specs ss r1 w)"

text \<open>The body of \<^verbatim>\<open>_software_create_env\<close> after the cache test (lines 69 to 85).\<close>

definition create_env_body ::
  "ext \<Rightarrow> path \<Rightarrow> pip \<Rightarrow> workspace \<Rightarrow> world \<Rightarrow> (error + unit) \<times> pip \<times> workspace \<times> world" where
  "create_env_body X p P ws w =
     (case create_env X p (set_dry_run (ws_dry_run ws) (runner P)) w of
        (Inl e, r1, w1) \<Rightarrow> (Inl e, P\<lparr>runner := r1\<rparr>, ws, w1)
      | (Inr u, r1, w1) \<Rightarrow>
          (case software_env P of
             Inl e \<Rightarrow> (Inl e, P\<lparr>runner := r1\<rparr>, ws, w1)
           | Inr None \<Rightarrow> (Inr (), P\<lparr>runner := r1\<rparr>, ws, w1)
           | Inr (Some pkg_specs) \<Rightarrow>
               (case add_specs pkg_specs r1 w1 of
                  (Inl e, r2) \<Rightarrow> (Inl e, P\<lparr>runner := r2\<rparr>, ws, w1)
                | (Inr u2, r2) \<Rightarrow>
                    (case generate_requirement_file r2 w1 of
                       (res, r3, w3) \<Rightarrow> (res, P\<lparr>runner := r3\<rparr>, ws, w3)))))"

text \<open>\<^verbatim>\<open>_software_create_env\<close>: the test of the environment path (\<^verbatim>\<open>not env_path\<close> holds for
  \<^verbatim>\<open>None\<close> and for the empty string), the cache test with the early return, the
  registration of the key, then the body.\<close>

definition software_create_env ::
  "ext \<Rightarrow> pip \<Rightarrow> workspace \<Rightarrow> world \<Rightarrow> (error + unit) \<times> pip \<times> workspace \<times> world" where
  "software_create_env X P ws w =
     (case expander_env_path P of
        None \<Rightarrow> (Inl (ApplicationError ''Ramble env_path is set to None''), P, ws, w)
      | Some p \<Rightarrow>
          if p = [] then (Inl (ApplicationError ''Ramble env_path is set to None''), P, ws, w)
          else if check_cache ws (''pip-env'', p) then (Inr (), P, ws, w)
          else create_env_body X p P (add_to_cache (''pip-env'', p) ws) w)"

text \<open>The body of \<^verbatim>\<open>_software_install\<close> after the cache test (lines 106 to 109).\<close>

definition install_body ::
  "ext \<Rightarrow> path \<Rightarrow> pip \<Rightarrow> workspace \<Rightarrow> world \<Rightarrow> (error + unit) \<times> pip \<times> workspace \<times> world" where
  "install_body X p P ws w =
     (if environment_required P
      then (case install X (configure_env (Some p) (set_dry_run (ws_dry_run ws) (runner P))) w of
              (res, r1, w1) \<Rightarrow> (res, P\<lparr>runner := r1\<rparr>, ws, w1))
      else (Inr (), P, ws, w))"

text \<open>\<^verbatim>\<open>_software_install\<close>, of the same shape.\<close>

definition software_install ::
  "ext \<Rightarrow> pip \<Rightarrow> workspace \<Rightarrow> world \<Rightarrow> (error + unit) \<times> pip \<times> workspace \<times> world" where
  "software_install X P ws w =
     (case expander_env_path P of
        None \<Rightarrow> (Inl (ApplicationError ''Ramble env_path is set to None''), P, ws, w)
      | Some p \<Rightarrow>
          if p = [] then (Inl (ApplicationError ''Ramble env_path is set to None''), P, ws, w)
          else if check_cache ws (''pip-install'', p) then (Inr (), P, ws, w)
          else install_body X p P (add_to_cache (''pip-install'', p) ws) w)"

text \<open>The two phases by name, with the label of their cache key and their body.\<close>

datatype phase = SoftwareCreateEnv | SoftwareInstall

fun phase_label :: "phase \<Rightarrow> string" where
  "phase_label SoftwareCreateEnv = ''pip-env''"
| "phase_label SoftwareInstall = ''pip-install''"

fun phase_body ::
  "phase \<Rightarrow> ext \<Rightarrow> path \<Rightarrow> pip \<Rightarrow> workspace \<Rightarrow> world \<Rightarrow> (error + unit) \<times> pip \<times> workspace \<times> world" where
  "phase_body SoftwareCreateEnv = create_env_body"
| "phase_body SoftwareInstall = install_body"

fun run_phase ::
  "phase \<Rightarrow> ext \<Rightarrow> pip \<Rightarrow> workspace \<Rightarrow> world \<Rightarrow> (error + unit) \<times> pip \<times> workspace \<times> world" where
  "run_phase SoftwareCreateEnv = software_create_env"
| "run_phase SoftwareInstall = software_install"

subsection \<open>One orchestration run\<close>

text \<open>
  A run is a sequence of phase calls on the package manager instances of the experiments,
  which share the workspace and the world; a call names the phase and the instance. The
  body of a phase is entered exactly when the environment path is set and the key is not
  yet in the cache: \<open>entered_key\<close> is that key. \<open>executed_keys\<close> lists the keys whose
  bodies run in the course of the calls, in order (a call after a failed one is included,
  so that every prefix of the run is covered).
\<close>

type_synonym call = "phase \<times> nat"

type_synonym run_state = "pip list \<times> workspace \<times> world"

fun entered_key :: "call \<Rightarrow> run_state \<Rightarrow> cache_key option" where
  "entered_key (ph, i) (Ps, ws, w) =
     (if i < length Ps
      then (case expander_env_path (Ps ! i) of
              None \<Rightarrow> None
            | Some p \<Rightarrow>
                if p = [] then None
                else if check_cache ws (phase_label ph, p) then None
                else Some (phase_label ph, p))
      else None)"

fun run_call :: "ext \<Rightarrow> call \<Rightarrow> run_state \<Rightarrow> (error + unit) \<times> run_state" where
  "run_call X (ph, i) (Ps, ws, w) =
     (if i < length Ps
      then (case run_phase ph X (Ps ! i) ws w of
              (res, P', ws', w') \<Rightarrow> (res, Ps[i := P'], ws', w'))
      else (Inr (), Ps, ws, w))"

fun executed_keys :: "ext \<Rightarrow> call list \<Rightarrow> run_state \<Rightarrow> cache_key list" where
  "executed_keys X [] s = []"
| "executed_keys X (c # cs) s =
     (case entered_key c s of None \<Rightarrow> [] | Some k \<Rightarrow> [k])
       @ executed_keys X cs (snd (run_call X c s))"

definition run_cache :: "run_state \<Rightarrow> cache_key set" where
  "run_cache s = cache (fst (snd s))"

subsection \<open>Observations on the trace\<close>




subsection \<open>Sample states\<close>

text \<open>Concrete collaborators and states, on which the theorems below are instantiated: a
  process that succeeds, prints the banner of \<^verbatim>\<open>pip --version\<close> and, for \<^verbatim>\<open>-m venv DIR\<close>,
  creates \<^verbatim>\<open>DIR\<close>; a digest that tags its input.\<close>

definition sample_run :: "path \<Rightarrow> string list \<Rightarrow> filesystem \<Rightarrow> bool \<times> string \<times> filesystem" where
  "sample_run exe args f =
     (True, ''pip 23.0.1 from /env/a/.venv/lib/python3.11/site-packages/pip (python 3.11)'',
      if take 2 args = [''-m'', ''venv''] then f\<lparr>nodes := (nodes f)(last args \<mapsto> Dir (clock f))\<rparr> else f)"

definition sample_ext :: ext where
  "sample_ext = \<lparr>run_process = sample_run,
     hash_string = (\<lambda>s. ''sha256:'' @ s), hash_bytes = (\<lambda>s. ''sha256:'' @ s)\<rparr>"

definition example_runner :: runner where
  "example_runner = \<lparr>bs_python = ''/usr/bin/python3'', env_path = Some ''/env/a'', configs = [],
     dry_run = True, specs = {||}, installed = False\<rparr>"

definition example_world :: world where
  "example_world = \<lparr>fs = \<lparr>nodes = Map.empty, clock = 0\<rparr>, trace = []\<rparr>"

text \<open>A file system holding the environment directory with its virtual environment.\<close>

definition venv_fs :: filesystem where
  "venv_fs = \<lparr>nodes = [''/env'' \<mapsto> Dir 0, ''/env/a'' \<mapsto> Dir 0, ''/env/a/.venv'' \<mapsto> Dir 0,
       ''/env/a/.venv/bin'' \<mapsto> Dir 0, ''/env/a/.venv/bin/activate'' \<mapsto> File [] 0,
       ''/env/a/.venv/bin/python'' \<mapsto> File [] 0],
     clock = 1\<rparr>"

text \<open>A real-mode runner with one spec, and a provisioned environment: the virtual
  environment, a requirement file with the given bytes (modified at time 1) and a lock file
  (modified at time 2).\<close>

definition one_spec_runner :: runner where
  "one_spec_runner = \<lparr>bs_python = ''/usr/bin/python3'', env_path = Some ''/env/a'', configs = [],
     dry_run = False, specs = {|''a''|}, installed = False\<rparr>"

definition provisioned_world :: "string \<Rightarrow> world" where
  "provisioned_world c =
     \<lparr>fs = \<lparr>nodes = (nodes venv_fs)(''/env/a/requirements.txt'' \<mapsto> File c 1,
               ''/env/a/requirements.lock'' \<mapsto> File ''a==1.0'' 2),
            clock = 3\<rparr>,
      trace = []\<rparr>"








text \<open>A process that prints the banner of a pre-release pip.\<close>

definition beta_run :: "path \<Rightarrow> string list \<Rightarrow> filesystem \<Rightarrow> bool \<times> string \<times> filesystem" where
  "beta_run exe args f =
     (True, ''pip 24.1b1 from /env/a/.venv/lib/python3.11/site-packages/pip (python 3.11)'', f)"

definition beta_ext :: ext where
  "beta_ext = sample_ext\<lparr>run_process := beta_run\<rparr>"

definition version_world :: world where
  "version_world = (provisioned_world [CHR ''a'', CHR 0x0A])
     \<lparr>trace := [Exec ''/env/a/.venv/bin/python'' [''-m'', ''pip'', ''--version'']]\<rparr>"

text \<open>A package manager instance for \<^verbatim>\<open>/env/a\<close> with two specs, a workspace whose cache
  already holds the key of the first phase, and a fresh dry-run workspace.\<close>

definition example_pip :: pip where
  "example_pip = \<lparr>runner = example_runner\<lparr>env_path := None\<rparr>, expander_env_path = Some ''/env/a'',
     environment_required = True, software_env = Inr (Some [''requests'', ''numpy==1.2''])\<rparr>"

definition seen_workspace :: workspace where
  "seen_workspace = \<lparr>cache = {(''pip-env'', ''/env/a'')}, ws_dry_run = True\<rparr>"

definition fresh_workspace :: workspace where
  "fresh_workspace = \<lparr>cache = {}, ws_dry_run = True\<rparr>"

section \<open>Properties\<close>

lemmas path_defs = path_join_def join2_def sep_def venv_name_def requirement_file_name_def
  lock_file_name_def

subsection \<open>The configuration check\<close>

lemma check_env_configured_specs [simp]:
  "check_env_configured (r\<lparr>specs := S\<rparr>) w = check_env_configured r w"
  by (simp add: check_env_configured_def get_activate_script_path_def)

lemma check_env_configured_installed [simp]:
  "check_env_configured (r\<lparr>installed := b\<rparr>) w = check_env_configured r w"
  by (simp add: check_env_configured_def get_activate_script_path_def)

lemma check_example_runner: "check_env_configured example_runner w = Inr ()"
  by (simp add: check_env_configured_def example_runner_def)

lemma check_example_runner_real:
  "check_env_configured (example_runner\<lparr>dry_run := False\<rparr>) (w\<lparr>fs := venv_fs\<rparr>) = Inr ()"
  by (simp add: check_env_configured_def example_runner_def get_activate_script_path_def
      path_defs path_exists_def venv_fs_def)

subsection \<open>The requirement content\<close>

lemma add_specs_configured:
  "check_env_configured r w = Inr () \<Longrightarrow>
   add_specs xs r w = (Inr (), r\<lparr>specs := fset_of_list xs |\<union>| specs r\<rparr>)"
proof (induction xs arbitrary: r)
  case Nil
  then show ?case by simp
next
  case (Cons x xs)
  have "add_spec x r w = (Inr (), r\<lparr>specs := finsert x (specs r)\<rparr>)"
    using Cons.prems by (simp add: add_spec_def)
  moreover have "check_env_configured (r\<lparr>specs := finsert x (specs r)\<rparr>) w = Inr ()"
    using Cons.prems by simp
  ultimately show ?case
    using Cons.IH [of "r\<lparr>specs := finsert x (specs r)\<rparr>"] by simp
qed

lemma sorted_specs_of_list:
  "sorted_list_of_fset (fset_of_list xs) = sorted_list_of_set (set xs)"
  by (simp add: sorted_list_of_fset.rep_eq fset_of_list.rep_eq)

lemma sorted_example_specs:
  "sorted_list_of_set (set [''requests'', ''numpy==1.2'', ''requests'']) = [''numpy==1.2'', ''requests'']"
  by code_simp

text \<open>
  Claim C3. Two runners that pass the configuration check and start from the empty Spec Set
  receive two sequences of \<open>add_spec\<close> calls with the same elements, in any order and with
  any repetitions. Both sequences succeed, the Spec Set is the set of the elements, and
  the computed requirement content is the same string for both: the specs in strictly
  increasing lexicographic order, without repetition, joined by line feeds, with one line
  feed at the end.
\<close>

theorem requirement_content_order_independent:
  assumes "check_env_configured r w = Inr ()" and "check_env_configured r' w' = Inr ()"
    and "specs r = {||}" and "specs r' = {||}"
    and "set xs = set ys"
  shows "fst (add_specs xs r w) = Inr () \<and> fst (add_specs ys r' w') = Inr ()
    \<and> fset (specs (snd (add_specs xs r w))) = set xs
    \<and> generate_requirement_content (snd (add_specs xs r w))
        = generate_requirement_content (snd (add_specs ys r' w'))
    \<and> generate_requirement_content (snd (add_specs xs r w))
        = str_join [CHR 0x0A] (sorted_list_of_set (set xs)) @ [CHR 0x0A]
    \<and> sorted_wrt (<) (sorted_list_of_set (set xs))
    \<and> set (sorted_list_of_set (set xs)) = set xs"
  using assms
  by (simp add: add_specs_configured generate_requirement_content_def sorted_specs_of_list
      linesep_def LF_def fset_of_list.rep_eq)

text \<open>The example of the spec: adding \<^verbatim>\<open>requests\<close>, \<^verbatim>\<open>numpy==1.2\<close>, \<^verbatim>\<open>requests\<close> to a dry-run
  runner and \<^verbatim>\<open>numpy==1.2\<close>, \<^verbatim>\<open>requests\<close> to a real one gives the same content, the two
  specs sorted, each followed by a line feed.\<close>

theorem requirement_content_order_independent_witness:
  "generate_requirement_content
     (snd (add_specs [''requests'', ''numpy==1.2'', ''requests''] example_runner example_world))
     = generate_requirement_content
         (snd (add_specs [''numpy==1.2'', ''requests''] (example_runner\<lparr>dry_run := False\<rparr>)
            (example_world\<lparr>fs := venv_fs\<rparr>)))
   \<and> generate_requirement_content
       (snd (add_specs [''requests'', ''numpy==1.2'', ''requests''] example_runner example_world))
     = ''numpy==1.2'' @ [CHR 0x0A] @ ''requests'' @ [CHR 0x0A]"
proof -
  have c: "specs example_runner = {||}" "specs (example_runner\<lparr>dry_run := False\<rparr>) = {||}"
    by (simp_all add: example_runner_def)
  have d: "set [''requests'', ''numpy==1.2'', ''requests''] = set [''numpy==1.2'', ''requests'']"
    by auto
  note th = requirement_content_order_independent
    [OF check_example_runner check_example_runner_real c d, of example_world example_world]
  from th have e: "generate_requirement_content
     (snd (add_specs [''requests'', ''numpy==1.2'', ''requests''] example_runner example_world))
     = generate_requirement_content
         (snd (add_specs [''numpy==1.2'', ''requests''] (example_runner\<lparr>dry_run := False\<rparr>)
            (example_world\<lparr>fs := venv_fs\<rparr>)))"
    by blast
  from th have f: "generate_requirement_content
       (snd (add_specs [''requests'', ''numpy==1.2'', ''requests''] example_runner example_world))
     = str_join [CHR 0x0A] (sorted_list_of_set (set [''requests'', ''numpy==1.2'', ''requests'']))
         @ [CHR 0x0A]"
    by blast
  have g: "str_join [CHR 0x0A] (sorted_list_of_set (set [''requests'', ''numpy==1.2'', ''requests'']))
       @ [CHR 0x0A]
     = ''numpy==1.2'' @ [CHR 0x0A] @ ''requests'' @ [CHR 0x0A]"
    unfolding sorted_example_specs by simp
  show ?thesis
    using e f g by presburger
qed

subsection \<open>The requirement file\<close>



lemma content_one_spec_runner:
  "generate_requirement_content (one_spec_runner\<lparr>installed := b\<rparr>) = [CHR ''a'', CHR 0x0A]"
  "generate_requirement_content one_spec_runner = [CHR ''a'', CHR 0x0A]"
  by (simp_all add: generate_requirement_content_def one_spec_runner_def linesep_def LF_def
      sorted_list_of_fset.rep_eq)

lemma check_one_spec_runner:
  "check_env_configured one_spec_runner (provisioned_world c) = Inr ()"
  by (simp add: check_env_configured_def one_spec_runner_def get_activate_script_path_def
      path_defs path_exists_def venv_fs_def provisioned_world_def)





subsection \<open>A changed Spec Set\<close>













subsection \<open>Operations behind the configuration check\<close>

lemma check_env_configured_iff:
  "(check_env_configured r w = Inr ()) =
     (env_path r \<noteq> None \<and> env_path r \<noteq> Some []
      \<and> (dry_run r \<or> (\<exists>p. env_path r = Some p
            \<and> path_exists (fs w) (path_join p [venv_name, ''bin'', ''activate'']))))"
  by (auto simp: check_env_configured_def get_activate_script_path_def split: option.splits)

lemma check_env_configured_error:
  "check_env_configured r w \<noteq> Inr () \<Longrightarrow> \<exists>m. check_env_configured r w = Inl (RunnerError m)"
  by (auto simp: check_env_configured_def get_activate_script_path_def split: option.splits if_splits)

lemma activate_script_path:
  "p \<noteq> [] \<Longrightarrow> last p \<noteq> CHR ''/'' \<Longrightarrow>
   path_join p [venv_name, ''bin'', ''activate''] = p @ ''/.venv/bin/activate''"
  by (simp add: path_defs)

text \<open>
  Claim C10. The configuration check passes exactly when an environment path is set (not
  \<^verbatim>\<open>None\<close>, not empty) and, unless the runner is in dry-run mode, the activate script
  \<^verbatim>\<open>{env}/.venv/bin/activate\<close> exists. Whenever it does not pass, \<open>add_spec\<close>,
  \<open>generate_requirement_file\<close>, \<open>install\<close> and \<open>inventory_hash\<close> all fail with that
  \<^verbatim>\<open>RunnerError\<close> and change nothing.
\<close>

theorem configuration_check_guards_operations:
  "((check_env_configured r w = Inr ()) =
     (env_path r \<noteq> None \<and> env_path r \<noteq> Some []
      \<and> (dry_run r \<or> (\<exists>p. env_path r = Some p
            \<and> path_exists (fs w) (path_join p [venv_name, ''bin'', ''activate''])))))
   \<and> (check_env_configured r w \<noteq> Inr () \<longrightarrow>
        (\<exists>m. check_env_configured r w = Inl (RunnerError m)
           \<and> add_spec s r w = (Inl (RunnerError m), r)
           \<and> generate_requirement_file r w = (Inl (RunnerError m), r, w)
           \<and> install X r w = (Inl (RunnerError m), r, w)
           \<and> inventory_hash X r w = Inl (RunnerError m)))
   \<and> (\<forall>p. p \<noteq> [] \<and> last p \<noteq> CHR ''/'' \<longrightarrow>
         path_join p [venv_name, ''bin'', ''activate''] = p @ ''/.venv/bin/activate'')"
proof -
  have "\<exists>m. check_env_configured r w = Inl (RunnerError m)
           \<and> add_spec s r w = (Inl (RunnerError m), r)
           \<and> generate_requirement_file r w = (Inl (RunnerError m), r, w)
           \<and> install X r w = (Inl (RunnerError m), r, w)
           \<and> inventory_hash X r w = Inl (RunnerError m)"
    if "check_env_configured r w \<noteq> Inr ()"
  proof -
    from check_env_configured_error [OF that] obtain m
      where m: "check_env_configured r w = Inl (RunnerError m)" ..
    then show ?thesis
      by (simp add: add_spec_def generate_requirement_file_def install_def inventory_hash_def)
  qed
  then show ?thesis
    using check_env_configured_iff [of r w] activate_script_path by blast
qed

text \<open>A real-mode runner bound to \<^verbatim>\<open>/env/a\<close> on an empty file system fails all four
  operations; the same runner in dry-run mode passes the check.\<close>

theorem configuration_check_guards_operations_witness:
  "check_env_configured (example_runner\<lparr>dry_run := False\<rparr>) example_world \<noteq> Inr ()
   \<and> check_env_configured example_runner example_world = Inr ()
   \<and> (\<exists>m. add_spec ''numpy'' (example_runner\<lparr>dry_run := False\<rparr>) example_world
            = (Inl (RunnerError m), example_runner\<lparr>dry_run := False\<rparr>)
         \<and> generate_requirement_file (example_runner\<lparr>dry_run := False\<rparr>) example_world
            = (Inl (RunnerError m), example_runner\<lparr>dry_run := False\<rparr>, example_world)
         \<and> install sample_ext (example_runner\<lparr>dry_run := False\<rparr>) example_world
            = (Inl (RunnerError m), example_runner\<lparr>dry_run := False\<rparr>, example_world)
         \<and> inventory_hash sample_ext (example_runner\<lparr>dry_run := False\<rparr>) example_world
            = Inl (RunnerError m))
   \<and> path_join ''/env/a'' [venv_name, ''bin'', ''activate''] = ''/env/a/.venv/bin/activate''"
proof -
  have a: "check_env_configured (example_runner\<lparr>dry_run := False\<rparr>) example_world \<noteq> Inr ()"
    by (simp add: check_env_configured_def example_runner_def example_world_def
        get_activate_script_path_def path_exists_def)
  have b: "''/env/a'' \<noteq> [] \<and> last ''/env/a'' \<noteq> CHR ''/''"
    by simp
  note th = configuration_check_guards_operations
      [of "example_runner\<lparr>dry_run := False\<rparr>" example_world "''numpy''" sample_ext]
  note ex = th [THEN conjunct2, THEN conjunct1, THEN mp, OF a]
  have pth: "path_join ''/env/a'' [venv_name, ''bin'', ''activate''] = ''/env/a/.venv/bin/activate''"
    using th [THEN conjunct2, THEN conjunct2, THEN spec, THEN mp, OF b] by simp
  from ex obtain m where
    "add_spec ''numpy'' (example_runner\<lparr>dry_run := False\<rparr>) example_world
            = (Inl (RunnerError m), example_runner\<lparr>dry_run := False\<rparr>)
         \<and> generate_requirement_file (example_runner\<lparr>dry_run := False\<rparr>) example_world
            = (Inl (RunnerError m), example_runner\<lparr>dry_run := False\<rparr>, example_world)
         \<and> install sample_ext (example_runner\<lparr>dry_run := False\<rparr>) example_world
            = (Inl (RunnerError m), example_runner\<lparr>dry_run := False\<rparr>, example_world)
         \<and> inventory_hash sample_ext (example_runner\<lparr>dry_run := False\<rparr>) example_world
            = Inl (RunnerError m)"
    by (elim exE conjE) (intro that conjI)
  then have "\<exists>m. add_spec ''numpy'' (example_runner\<lparr>dry_run := False\<rparr>) example_world
            = (Inl (RunnerError m), example_runner\<lparr>dry_run := False\<rparr>)
         \<and> generate_requirement_file (example_runner\<lparr>dry_run := False\<rparr>) example_world
            = (Inl (RunnerError m), example_runner\<lparr>dry_run := False\<rparr>, example_world)
         \<and> install sample_ext (example_runner\<lparr>dry_run := False\<rparr>) example_world
            = (Inl (RunnerError m), example_runner\<lparr>dry_run := False\<rparr>, example_world)
         \<and> inventory_hash sample_ext (example_runner\<lparr>dry_run := False\<rparr>) example_world
            = Inl (RunnerError m)"
    by (rule exI)
  with a check_example_runner [of example_world] pth show ?thesis
    by (intro conjI)
qed

subsection \<open>The inventory hash\<close>

text \<open>
  Claim C6. On a runner that passes the configuration check, \<open>inventory_hash\<close> in dry-run
  mode is the digest of the computed requirement content, whatever the file system holds:
  two such runners with the same Spec Set get the same value, and the value is not empty
  when the digest never is. In real mode, with a lock file in place, it is the digest of
  the lock file's bytes.
\<close>

theorem inventory_hash_digest:
  assumes "check_env_configured r w = Inr ()"
  shows "(dry_run r \<longrightarrow>
            inventory_hash X r w = Inr (hash_string X (generate_requirement_content r))
          \<and> (\<forall>r' w'. dry_run r' \<and> check_env_configured r' w' = Inr () \<and> specs r' = specs r
                \<longrightarrow> inventory_hash X r' w' = inventory_hash X r w)
          \<and> ((\<forall>s. hash_string X s \<noteq> []) \<longrightarrow> inventory_hash X r w \<noteq> Inr []))
    \<and> (\<not> dry_run r \<longrightarrow>
          (\<forall>p c t. env_path r = Some p
              \<and> nodes (fs w) (path_join p [lock_file_name]) = Some (File c t)
              \<longrightarrow> inventory_hash X r w = Inr (hash_bytes X c)))"
  using assms
  by (auto simp: inventory_hash_def generate_requirement_content_def hash_file_def)

lemma sample_hash_nonempty: "\<forall>s. hash_string sample_ext s \<noteq> []"
  by (simp add: sample_ext_def)

text \<open>The one-spec runner: in dry-run mode on an empty file system the digest of \<^verbatim>\<open>a\<close> and
  a line feed; in real mode on the provisioned environment the digest of the lock file.\<close>

theorem inventory_hash_digest_witness:
  "inventory_hash sample_ext (one_spec_runner\<lparr>dry_run := True\<rparr>) example_world
     = Inr (''sha256:'' @ [CHR ''a'', CHR 0x0A])
   \<and> inventory_hash sample_ext (one_spec_runner\<lparr>dry_run := True\<rparr>) example_world \<noteq> Inr []
   \<and> inventory_hash sample_ext one_spec_runner (provisioned_world [CHR ''a'', CHR 0x0A])
     = Inr (''sha256:'' @ ''a==1.0'')"
proof -
  have a: "check_env_configured (one_spec_runner\<lparr>dry_run := True\<rparr>) example_world = Inr ()"
    by (simp add: check_env_configured_def one_spec_runner_def)
  have c: "generate_requirement_content (one_spec_runner\<lparr>dry_run := True\<rparr>) = [CHR ''a'', CHR 0x0A]"
    using content_one_spec_runner(2) by (simp add: generate_requirement_content_def)
  have d: "dry_run (one_spec_runner\<lparr>dry_run := True\<rparr>)" "\<not> dry_run one_spec_runner"
    "env_path one_spec_runner = Some ''/env/a''"
    by (simp_all add: one_spec_runner_def)
  have e: "nodes (fs (provisioned_world [CHR ''a'', CHR 0x0A])) (path_join ''/env/a'' [lock_file_name])
      = Some (File ''a==1.0'' 2)"
    by (simp add: provisioned_world_def path_defs)
  have h: "hash_string sample_ext [CHR ''a'', CHR 0x0A] = ''sha256:'' @ [CHR ''a'', CHR 0x0A]"
    "hash_bytes sample_ext ''a==1.0'' = ''sha256:'' @ ''a==1.0''"
    by (simp_all add: sample_ext_def)
  note t1 = inventory_hash_digest [OF a, of sample_ext, THEN conjunct1, THEN mp, OF d(1)]
  have x1: "inventory_hash sample_ext (one_spec_runner\<lparr>dry_run := True\<rparr>) example_world
     = Inr (''sha256:'' @ [CHR ''a'', CHR 0x0A])"
    using t1 [THEN conjunct1] unfolding c h .
  have x2: "inventory_hash sample_ext (one_spec_runner\<lparr>dry_run := True\<rparr>) example_world \<noteq> Inr []"
    using t1 [THEN conjunct2, THEN conjunct2, THEN mp, OF sample_hash_nonempty] .
  have x3: "inventory_hash sample_ext one_spec_runner (provisioned_world [CHR ''a'', CHR 0x0A])
     = Inr (''sha256:'' @ ''a==1.0'')"
    using inventory_hash_digest [OF check_one_spec_runner [of "[CHR ''a'', CHR 0x0A]"], of sample_ext,
        THEN conjunct2, THEN mp, OF d(2), THEN spec, THEN spec, THEN spec, THEN mp, OF conjI, OF d(3) e]
    unfolding h .
  from x1 x2 x3 show ?thesis
    by (intro conjI)
qed

subsection \<open>Creating the environment\<close>














subsection \<open>Installing twice\<close>









subsection \<open>Dry-run mode\<close>






lemma content_dry_run [simp]:
  "generate_requirement_content (r\<lparr>dry_run := b\<rparr>) = generate_requirement_content r"
  by (simp add: generate_requirement_content_def)










subsection \<open>The version query\<close>

lemma search_sample: "re_search_version ''pip 23.0.1 from /env/a/.venv/lib/python3.11/site-packages/pip (python 3.11)''
   = Some ''23.0.1''"
  by (simp add: match_here_def is_version_char_def)

lemma search_beta: "re_search_version ''pip 24.1b1 from /env/a/.venv/lib/python3.11/site-packages/pip (python 3.11)''
   = None"
  by (simp add: match_here_def is_version_char_def)

lemma get_version_sample:
  "get_version sample_ext one_spec_runner (provisioned_world [CHR ''a'', CHR 0x0A])
     = (Inr ''23.0.1'', version_world)"
  by (simp add: get_version_def get_venv_python_def one_spec_runner_def call_exe_def sample_ext_def
      sample_run_def search_sample version_world_def provisioned_world_def path_defs
      del: re_search_version.simps)

text \<open>
  Claim C9. The claim has \<open>get_version\<close> fail with an error of the program's own kind,
  carrying the captured output, whenever the pattern is absent. The banner of a pre-release
  pip, \<^verbatim>\<open>pip 24.1b1 from ...\<close>, has no match (the run of digits and dots stops at
  \<^verbatim>\<open>b\<close>): the process has run, and the call ends in the \<^verbatim>\<open>AttributeError\<close> of
  \<^verbatim>\<open>None.group\<close>.
\<close>

theorem get_version_unparsable_raises_attribute_error:
  "get_version beta_ext one_spec_runner (provisioned_world [CHR ''a'', CHR 0x0A])
     = (Inl AttributeError, version_world)"
  by (simp add: get_version_def get_venv_python_def one_spec_runner_def call_exe_def beta_ext_def
      beta_run_def search_beta version_world_def provisioned_world_def path_defs
      del: re_search_version.simps)

text \<open>No outcome of \<open>get_version\<close> is a \<^verbatim>\<open>RunnerError\<close>.\<close>

lemma get_version_no_runner_error:
  "fst (get_version X r w) \<noteq> Inl (RunnerError m)"
  by (auto simp: get_version_def get_venv_python_def call_exe_def
      split: sum.splits prod.splits option.splits if_splits)

subsection \<open>The phases behind the cache\<close>

lemma phase_body_workspace:
  "fst (snd (snd (phase_body ph X p P ws w))) = ws"
  by (cases ph)
     (auto simp: create_env_body_def install_body_def split: prod.splits sum.splits option.splits)

lemma run_phase_eq:
  "run_phase ph X P ws w =
     (case expander_env_path P of
        None \<Rightarrow> (Inl (ApplicationError ''Ramble env_path is set to None''), P, ws, w)
      | Some p \<Rightarrow>
          if p = [] then (Inl (ApplicationError ''Ramble env_path is set to None''), P, ws, w)
          else if check_cache ws (phase_label ph, p) then (Inr (), P, ws, w)
          else phase_body ph X p P (add_to_cache (phase_label ph, p) ws) w)"
  by (cases ph) (simp_all add: software_create_env_def software_install_def split: option.splits)

lemma run_phase_cache:
  "cache (fst (snd (snd (run_phase ph X P ws w)))) =
     (case expander_env_path P of
        None \<Rightarrow> cache ws
      | Some p \<Rightarrow> if p = [] then cache ws else insert (phase_label ph, p) (cache ws))"
  by (auto simp: run_phase_eq phase_body_workspace check_cache_def add_to_cache_def
      split: option.splits)

lemma run_call_cache:
  "run_cache (snd (run_call X c s)) =
     (case entered_key c s of None \<Rightarrow> run_cache s | Some k \<Rightarrow> insert k (run_cache s))"
proof -
  obtain ph i where c: "c = (ph, i)" by (cases c)
  obtain Ps ws w where s: "s = (Ps, ws, w)" by (cases s)
  show ?thesis
  proof (cases "i < length Ps")
    case False
    then show ?thesis by (simp add: c s run_cache_def)
  next
    case True
    have "run_cache (snd (run_call X c s)) = cache (fst (snd (snd (run_phase ph X (Ps ! i) ws w))))"
      using True by (simp add: c s run_cache_def split: prod.splits)
    then show ?thesis
      using True
      by (auto simp: run_phase_cache c s run_cache_def check_cache_def split: option.splits)
  qed
qed

lemma entered_key_fresh:
  "entered_key c s = Some k \<Longrightarrow> k \<notin> run_cache s"
proof -
  obtain ph i where c: "c = (ph, i)" by (cases c)
  obtain Ps ws w where s: "s = (Ps, ws, w)" by (cases s)
  show "entered_key c s = Some k \<Longrightarrow> k \<notin> run_cache s"
    by (auto simp: c s run_cache_def check_cache_def split: if_splits option.splits)
qed

lemma executed_keys_fresh_distinct:
  "set (executed_keys X cs s) \<inter> run_cache s = {} \<and> distinct (executed_keys X cs s)"
proof (induction cs arbitrary: s)
  case Nil
  then show ?case by simp
next
  case (Cons c cs)
  let ?s' = "snd (run_call X c s)"
  have ih: "set (executed_keys X cs ?s') \<inter> run_cache ?s' = {}" "distinct (executed_keys X cs ?s')"
    using Cons.IH [of ?s'] by simp_all
  show ?case
  proof (cases "entered_key c s")
    case None
    then have "run_cache ?s' = run_cache s"
      by (simp add: run_call_cache)
    then show ?thesis using ih None by simp
  next
    case (Some k)
    then have "run_cache ?s' = insert k (run_cache s)"
      by (simp add: run_call_cache)
    moreover have "k \<notin> run_cache s"
      using Some by (rule entered_key_fresh)
    ultimately show ?thesis using ih Some by auto
  qed
qed

text \<open>
  Claim C7. For either phase, with the environment path set: after the call the key
  (phase label, environment path) is in the cache, whatever the outcome of the body; with
  the key absent, the call is the body run on the workspace in which the key is already
  registered; with the key present, the call returns at once and the package manager
  instance (its runner included), the workspace and the world are untouched. In a run, a
  call that enters a body does so with its key absent and leaves it present, a call that
  enters none changes nothing, and no key occurs twice among the bodies executed.
\<close>

theorem phase_cache_guard:
  "(expander_env_path P = Some p \<and> p \<noteq> [] \<longrightarrow>
      (phase_label ph, p) \<in> cache (fst (snd (snd (run_phase ph X P ws w))))
      \<and> (\<not> check_cache ws (phase_label ph, p) \<longrightarrow>
           run_phase ph X P ws w = phase_body ph X p P (add_to_cache (phase_label ph, p) ws) w
           \<and> check_cache (add_to_cache (phase_label ph, p) ws) (phase_label ph, p))
      \<and> (check_cache ws (phase_label ph, p) \<longrightarrow> run_phase ph X P ws w = (Inr (), P, ws, w)))
   \<and> (\<forall>k. entered_key c s = Some k \<longrightarrow>
         k \<notin> run_cache s \<and> k \<in> run_cache (snd (run_call X c s)))
   \<and> (entered_key c s = None \<longrightarrow> snd (run_call X c s) = s)
   \<and> distinct (executed_keys X cs s)"
proof -
  have a: "(phase_label ph, p) \<in> cache (fst (snd (snd (run_phase ph X P ws w))))"
    if "expander_env_path P = Some p \<and> p \<noteq> []"
    using that by (simp add: run_phase_cache)
  have b: "run_phase ph X P ws w = phase_body ph X p P (add_to_cache (phase_label ph, p) ws) w
           \<and> check_cache (add_to_cache (phase_label ph, p) ws) (phase_label ph, p)"
    if "expander_env_path P = Some p \<and> p \<noteq> []" "\<not> check_cache ws (phase_label ph, p)"
    using that by (simp add: run_phase_eq check_cache_def add_to_cache_def)
  have c: "run_phase ph X P ws w = (Inr (), P, ws, w)"
    if "expander_env_path P = Some p \<and> p \<noteq> []" "check_cache ws (phase_label ph, p)"
    using that by (simp add: run_phase_eq)
  have d: "k \<notin> run_cache s \<and> k \<in> run_cache (snd (run_call X c s))" if "entered_key c s = Some k" for k
    using that entered_key_fresh [OF that] by (simp add: run_call_cache)
  have e: "snd (run_call X c s) = s" if "entered_key c s = None"
  proof -
    obtain ph i where c: "c = (ph, i)" by (cases c)
    obtain Ps ws w where s: "s = (Ps, ws, w)" by (cases s)
    show ?thesis
      using that
      by (auto simp: c s run_phase_eq split: if_splits option.splits)
  qed
  show ?thesis
    using a b c d e executed_keys_fresh_distinct [of X cs s] by blast
qed

text \<open>The cache holding the key of the first phase for \<^verbatim>\<open>/env/a\<close>: the phase is skipped
  and nothing changes. The fresh cache: the body runs with the key registered. Both phases
  called twice: no key is executed twice.\<close>

theorem phase_cache_guard_witness:
  "software_create_env sample_ext example_pip seen_workspace example_world
     = (Inr (), example_pip, seen_workspace, example_world)
   \<and> software_create_env sample_ext example_pip fresh_workspace example_world
     = create_env_body sample_ext ''/env/a'' example_pip
         (add_to_cache (''pip-env'', ''/env/a'') fresh_workspace) example_world
   \<and> (''pip-env'', ''/env/a'')
       \<in> cache (fst (snd (snd (software_create_env sample_ext example_pip fresh_workspace example_world))))
   \<and> (''pip-env'', ''/env/a'') \<notin> run_cache ([example_pip], fresh_workspace, example_world)
   \<and> (''pip-env'', ''/env/a'')
       \<in> run_cache (snd (run_call sample_ext (SoftwareCreateEnv, 0) ([example_pip], fresh_workspace, example_world)))
   \<and> snd (run_call sample_ext (SoftwareCreateEnv, 0) ([example_pip], seen_workspace, example_world))
       = ([example_pip], seen_workspace, example_world)
   \<and> distinct (executed_keys sample_ext
        [(SoftwareCreateEnv, 0), (SoftwareInstall, 0), (SoftwareCreateEnv, 0), (SoftwareInstall, 0)]
        ([example_pip], fresh_workspace, example_world))"
proof -
  have p: "expander_env_path example_pip = Some ''/env/a'' \<and> ''/env/a'' \<noteq> []"
    by (simp add: example_pip_def)
  have s: "check_cache seen_workspace (phase_label SoftwareCreateEnv, ''/env/a'')"
    by (simp add: seen_workspace_def check_cache_def)
  have f: "\<not> check_cache fresh_workspace (phase_label SoftwareCreateEnv, ''/env/a'')"
    by (simp add: fresh_workspace_def check_cache_def)
  have k: "entered_key (SoftwareCreateEnv, 0) ([example_pip], fresh_workspace, example_world)
      = Some (''pip-env'', ''/env/a'')"
    by (simp add: example_pip_def fresh_workspace_def check_cache_def)
  have n: "entered_key (SoftwareCreateEnv, 0) ([example_pip], seen_workspace, example_world) = None"
    by (simp add: example_pip_def seen_workspace_def check_cache_def)
  note t1 = phase_cache_guard [of example_pip "''/env/a''" SoftwareCreateEnv sample_ext seen_workspace
      example_world "(SoftwareCreateEnv, 0)" "([example_pip], fresh_workspace, example_world)"
      "[(SoftwareCreateEnv, 0), (SoftwareInstall, 0), (SoftwareCreateEnv, 0), (SoftwareInstall, 0)]"]
  note t2 = phase_cache_guard [of example_pip "''/env/a''" SoftwareCreateEnv sample_ext fresh_workspace
      example_world "(SoftwareCreateEnv, 0)" "([example_pip], seen_workspace, example_world)" "[]"]
  have x1: "software_create_env sample_ext example_pip seen_workspace example_world
     = (Inr (), example_pip, seen_workspace, example_world)"
    using t1 [THEN conjunct1, THEN mp, OF p, THEN conjunct2, THEN conjunct2, THEN mp, OF s]
    by simp
  have x2: "software_create_env sample_ext example_pip fresh_workspace example_world
     = create_env_body sample_ext ''/env/a'' example_pip
         (add_to_cache (''pip-env'', ''/env/a'') fresh_workspace) example_world"
    using t2 [THEN conjunct1, THEN mp, OF p, THEN conjunct2, THEN conjunct1, THEN mp, OF f, THEN conjunct1]
    by simp
  have x3: "(''pip-env'', ''/env/a'')
       \<in> cache (fst (snd (snd (software_create_env sample_ext example_pip fresh_workspace example_world))))"
    using t2 [THEN conjunct1, THEN mp, OF p, THEN conjunct1] by simp
  note x4 = t1 [THEN conjunct2, THEN conjunct1, THEN spec, THEN mp, OF k]
  note x5 = t2 [THEN conjunct2, THEN conjunct2, THEN conjunct1, THEN mp, OF n]
  have x6: "distinct (executed_keys sample_ext
        [(SoftwareCreateEnv, 0), (SoftwareInstall, 0), (SoftwareCreateEnv, 0), (SoftwareInstall, 0)]
        ([example_pip], fresh_workspace, example_world))"
    using t1 [THEN conjunct2, THEN conjunct2, THEN conjunct2] .
  from x1 x2 x3 x4 x5 x6 show ?thesis
    by (intro conjI) (elim conjE, assumption)+
qed

text \<open>The bodies executed when both phases are called twice on one instance: each once.\<close>

lemma run_phase_expander:
  "expander_env_path (fst (snd (run_phase ph X P ws w))) = expander_env_path P"
  by (cases ph)
     (auto simp: software_create_env_def software_install_def create_env_body_def install_body_def
        split: option.splits prod.splits sum.splits)

lemma executed_keys_example:
  "executed_keys X
        [(SoftwareCreateEnv, 0), (SoftwareInstall, 0), (SoftwareCreateEnv, 0), (SoftwareInstall, 0)]
        ([example_pip], fresh_workspace, w)
   = [(''pip-env'', ''/env/a''), (''pip-install'', ''/env/a'')]"
proof -
  have step: "\<exists>P' w'. snd (run_call X (ph, 0) ([P], ws, w0))
       = ([P'], ws\<lparr>cache := insert (phase_label ph, ''/env/a'') (cache ws)\<rparr>, w')
       \<and> expander_env_path P' = Some ''/env/a''"
    if "expander_env_path P = Some ''/env/a''" for ph P ws w0
  proof (cases "check_cache ws (phase_label ph, ''/env/a'')")
    case True
    then have "ws\<lparr>cache := insert (phase_label ph, ''/env/a'') (cache ws)\<rparr> = ws"
      by (simp add: check_cache_def insert_absorb)
    then show ?thesis using True that by (simp add: run_phase_eq)
  next
    case False
    obtain res P' ws' w' where r: "run_phase ph X P ws w0 = (res, P', ws', w')"
      by (cases "run_phase ph X P ws w0") auto
    have "ws' = add_to_cache (phase_label ph, ''/env/a'') ws"
      using phase_body_workspace [of ph X "''/env/a''" P "add_to_cache (phase_label ph, ''/env/a'') ws" w0]
        r False that
      by (simp add: run_phase_eq)
    moreover have "expander_env_path P' = Some ''/env/a''"
      using run_phase_expander [of ph X P ws w0] r that by simp
    ultimately show ?thesis using r by (simp add: add_to_cache_def)
  qed
  have e0: "expander_env_path example_pip = Some ''/env/a''"
    by (simp add: example_pip_def)
  from step [OF e0, of SoftwareCreateEnv fresh_workspace w] obtain P1 w1 where
    s1: "snd (run_call X (SoftwareCreateEnv, 0) ([example_pip], fresh_workspace, w))
       = ([P1], fresh_workspace\<lparr>cache := {(''pip-env'', ''/env/a'')}\<rparr>, w1)"
    and e1: "expander_env_path P1 = Some ''/env/a''"
    by (auto simp: fresh_workspace_def)
  from step [OF e1, of SoftwareInstall "fresh_workspace\<lparr>cache := {(''pip-env'', ''/env/a'')}\<rparr>" w1]
  obtain P2 w2 where
    s2: "snd (run_call X (SoftwareInstall, 0) ([P1], fresh_workspace\<lparr>cache := {(''pip-env'', ''/env/a'')}\<rparr>, w1))
       = ([P2], fresh_workspace\<lparr>cache := {(''pip-install'', ''/env/a''), (''pip-env'', ''/env/a'')}\<rparr>, w2)"
    and e2: "expander_env_path P2 = Some ''/env/a''"
    by auto
  from step [OF e2, of SoftwareCreateEnv
      "fresh_workspace\<lparr>cache := {(''pip-install'', ''/env/a''), (''pip-env'', ''/env/a'')}\<rparr>" w2]
  obtain P3 w3 where
    s3: "snd (run_call X (SoftwareCreateEnv, 0)
         ([P2], fresh_workspace\<lparr>cache := {(''pip-install'', ''/env/a''), (''pip-env'', ''/env/a'')}\<rparr>, w2))
       = ([P3], fresh_workspace\<lparr>cache := {(''pip-install'', ''/env/a''), (''pip-env'', ''/env/a'')}\<rparr>, w3)"
    and e3: "expander_env_path P3 = Some ''/env/a''"
    by (auto simp: insert_commute)
  have c0: "cache fresh_workspace = {}"
    by (simp add: fresh_workspace_def)
  show ?thesis
    using e0 e1 e2 e3 c0
    by (simp add: s1 s2 s3 check_cache_def del: run_call.simps)
qed

end
